theory Spec2Isabelle
  imports Complex_Main
begin

section \<open>Trading calculator: position sizing, leverage and structural checks\<close>

text \<open>
  A shallow embedding of \<^verbatim>\<open>trading_calculator.py\<close>.

  Numbers. The source computes with Python floats. Here a float is an exact real number:
  rounding, infinities and NaN are not modelled. What is modelled of the float operations
  is their control flow and their one fault: in Python, \<^verbatim>\<open>x / y\<close> on floats raises
  \<^verbatim>\<open>ZeroDivisionError\<close> when \<^verbatim>\<open>y\<close> is zero, and no other operation of the calculator
  (\<^verbatim>\<open>+\<close>, \<^verbatim>\<open>-\<close>, \<^verbatim>\<open>*\<close>, comparisons) can raise. Every division of the source by a
  divisor that is not a nonzero literal is therefore written with \<open>fdiv\<close>, whose result is
  a value of \<open>error + real\<close>.

  Strings. A Python \<^verbatim>\<open>str\<close> is a sequence of Unicode code points; the messages of the
  source are Korean, so a string is a list of code points here and every literal of the
  source is written out code point by code point, with an English gloss beside it.
\<close>

subsection \<open>Faults\<close>

datatype error = ZeroDivisionError

definition fdiv :: "real \<Rightarrow> real \<Rightarrow> error + real" where
  "fdiv a b = (if b = 0 then Inl ZeroDivisionError else Inr (a / b))"

text \<open>Sequencing: the first fault ends the computation, as a raised exception does.\<close>

definition ebind :: "error + 'a \<Rightarrow> ('a \<Rightarrow> error + 'b) \<Rightarrow> error + 'b" where
  "ebind m f = (case m of Inl e \<Rightarrow> Inl e | Inr v \<Rightarrow> f v)"

subsection \<open>Constants and records\<close>

definition TAKER_FEE_RATE :: real where
  "TAKER_FEE_RATE = 4 / 10000"

definition MIN_LEVERAGE :: real where
  "MIN_LEVERAGE = 3"

definition MAX_LEVERAGE :: real where
  "MAX_LEVERAGE = 150"

datatype direction = LONG | SHORT

record TradingInputs =
  total_asset :: real
  risk_ratio :: real
  direction :: direction
  entry_price :: real
  stop_loss :: real
  take_profits :: "real list"
  margin_usage_ratio :: real

text \<open>
  One entry of \<^verbatim>\<open>take_profit_results\<close>: the inner dictionary of the source always has
  the three keys \<^verbatim>\<open>rr_ratio\<close>, \<^verbatim>\<open>actual_rr\<close> and \<^verbatim>\<open>profit\<close>.
\<close>

record tp_result =
  rr_ratio :: real
  actual_rr :: real
  profit :: real

type_synonym ustring = "nat list"

text \<open>
  The outer dictionary of \<^verbatim>\<open>take_profit_results\<close> is an association list in insertion
  order, keyed by the 1-based index of the target; the empty dictionary is \<open>[]\<close>.
\<close>

record TradingResults =
  stop_loss_pct :: real
  stop_loss_price :: real
  actual_loss_amount :: real
  position_notional :: real
  position_quantity :: real
  position_leverage :: real
  effective_leverage :: real
  take_profit_results :: "(nat \<times> tp_result) list"
  structural_issue :: ustring
  required_margin :: real
  overall_judgment :: ustring
  actual_entry_notional :: real
  actual_entry_quantity :: real
  actual_entry_leverage :: real

subsection \<open>Steps 1 to 4: risk amount, stop loss, position size, actual loss\<close>

definition calculate_risk_amount :: "real \<Rightarrow> real \<Rightarrow> real" where
  "calculate_risk_amount asset ratio = asset * (ratio / 100)"

definition calculate_stop_loss :: "direction \<Rightarrow> real \<Rightarrow> real \<Rightarrow> error + (real \<times> real)" where
  "calculate_stop_loss dir entry stop =
     (if dir = LONG
      then ebind (fdiv (entry - stop) entry) (\<lambda>q. Inr (q * 100, stop))
      else ebind (fdiv (stop - entry) entry) (\<lambda>q. Inr (q * 100, stop)))"

definition price_diff :: "direction \<Rightarrow> real \<Rightarrow> real \<Rightarrow> real" where
  "price_diff dir entry stop = (if dir = LONG then entry - stop else stop - entry)"

definition fee_per_unit :: "real \<Rightarrow> real \<Rightarrow> real" where
  "fee_per_unit entry stop = (entry + stop) * TAKER_FEE_RATE"

definition calculate_position_size ::
  "direction \<Rightarrow> real \<Rightarrow> real \<Rightarrow> real \<Rightarrow> error + (real \<times> real)" where
  "calculate_position_size dir entry stop risk_amount =
     ebind (fdiv risk_amount (price_diff dir entry stop + fee_per_unit entry stop))
       (\<lambda>quantity. Inr (entry * quantity, quantity))"

definition calculate_actual_loss ::
  "direction \<Rightarrow> real \<Rightarrow> real \<Rightarrow> real \<Rightarrow> real \<Rightarrow> real" where
  "calculate_actual_loss dir entry stop notional quantity =
     (let price_loss = (if dir = LONG then (entry - stop) * quantity
                        else (stop - entry) * quantity);
          entry_fee = notional * TAKER_FEE_RATE;
          exit_fee = stop * quantity * TAKER_FEE_RATE
      in price_loss + entry_fee + exit_fee)"

subsection \<open>Step 5: leverage\<close>

text \<open>
  The source divides \<^verbatim>\<open>position_notional / min_margin\<close> in the test and again in the
  branch; both divisions are kept. The result is the triple
  \<^verbatim>\<open>(leverage, effective_leverage, required_margin)\<close>; the parameter
  \<^verbatim>\<open>risk_amount\<close> is unused, as in the source.
\<close>

definition calculate_leverage ::
  "real \<Rightarrow> real \<Rightarrow> real \<Rightarrow> real \<Rightarrow> error + (real \<times> real \<times> real)" where
  "calculate_leverage notional risk_amount asset usage =
     (let min_margin = asset * (usage / 100) in
      ebind (fdiv notional min_margin) (\<lambda>ratio.
      ebind (if ratio \<le> MAX_LEVERAGE
             then ebind (fdiv notional min_margin)
                    (\<lambda>lev. Inr (if lev < MIN_LEVERAGE then MIN_LEVERAGE else lev))
             else Inr MAX_LEVERAGE) (\<lambda>leverage.
      ebind (fdiv notional leverage) (\<lambda>margin.
      ebind (fdiv notional asset) (\<lambda>effective.
      Inr (leverage, effective, margin))))))"

subsection \<open>Step 6: reward/risk and profit of every target\<close>

text \<open>
  The body of the loop \<^verbatim>\<open>for idx, take_profit in enumerate(take_profits, start=1)\<close>,
  for one target.
\<close>

definition rr_entry ::
  "direction \<Rightarrow> real \<Rightarrow> real \<Rightarrow> real \<Rightarrow> real \<Rightarrow> real \<Rightarrow> real \<Rightarrow> error + tp_result" where
  "rr_entry dir entry quantity sl_pct entry_fee loss_with_fee tp =
     ebind (if dir = LONG then fdiv (tp - entry) entry else fdiv (entry - tp) entry) (\<lambda>q.
     let profit_pct = q * 100 in
     ebind (if sl_pct > 0 then fdiv profit_pct sl_pct else Inr 0) (\<lambda>rr.
     let gross_profit = (if dir = LONG then (tp - entry) * quantity
                         else (entry - tp) * quantity);
         tp_exit_fee = tp * quantity * TAKER_FEE_RATE;
         net_profit = gross_profit - entry_fee - tp_exit_fee in
     ebind (if loss_with_fee > 0 then fdiv net_profit loss_with_fee else Inr 0) (\<lambda>arr.
     Inr \<lparr>rr_ratio = rr, actual_rr = arr, profit = net_profit\<rparr>)))"

fun rr_loop ::
  "direction \<Rightarrow> real \<Rightarrow> real \<Rightarrow> real \<Rightarrow> real \<Rightarrow> real \<Rightarrow> nat \<Rightarrow> real list
     \<Rightarrow> error + (nat \<times> tp_result) list" where
  "rr_loop dir entry quantity sl_pct entry_fee loss_with_fee idx [] = Inr []"
| "rr_loop dir entry quantity sl_pct entry_fee loss_with_fee idx (tp # tps) =
     ebind (rr_entry dir entry quantity sl_pct entry_fee loss_with_fee tp) (\<lambda>r.
     ebind (rr_loop dir entry quantity sl_pct entry_fee loss_with_fee (Suc idx) tps) (\<lambda>rs.
     Inr ((idx, r) # rs)))"

definition calculate_rr_and_profit ::
  "direction \<Rightarrow> real \<Rightarrow> real \<Rightarrow> real list \<Rightarrow> real \<Rightarrow> real \<Rightarrow> real
     \<Rightarrow> error + (nat \<times> tp_result) list" where
  "calculate_rr_and_profit dir entry stop tps notional quantity sl_pct =
     (let entry_fee = notional * TAKER_FEE_RATE;
          sl_exit_fee = stop * quantity * TAKER_FEE_RATE;
          price_loss = (if dir = LONG then (entry - stop) * quantity
                        else (stop - entry) * quantity);
          actual_loss_with_fee = price_loss + entry_fee + sl_exit_fee
      in rr_loop dir entry quantity sl_pct entry_fee actual_loss_with_fee 1 tps)"

subsection \<open>Strings of the source\<close>

text \<open>\<^verbatim>\<open>str(idx)\<close> inside an f-string: the decimal digits of a natural number.\<close>

fun dec :: "nat \<Rightarrow> ustring" where
  "dec n = (if n < 10 then [48 + n] else dec (n div 10) @ [48 + n mod 10])"

declare dec.simps [simp del]

text \<open>
  Reading decimal digits back (\<^verbatim>\<open>int(s)\<close> on a string of digits); used to show that
  different indices are rendered differently.
\<close>

definition undec :: "ustring \<Rightarrow> nat" where
  "undec ds = foldl (\<lambda>a c. 10 * a + (c - 48)) 0 ds"

text \<open>\<^verbatim>\<open>sep.join(xs)\<close>.\<close>

fun join :: "ustring \<Rightarrow> ustring list \<Rightarrow> ustring" where
  "join sep [] = []"
| "join sep [x] = x"
| "join sep (x # y # ys) = x @ sep @ join sep (y # ys)"

definition slash :: ustring where
  \<comment> \<open>space, slash, space\<close>
  "slash = [0x20, 0x2F, 0x20]"

definition no_issue :: ustring where
  \<comment> \<open>"no problem": the sentinel of both string fields\<close>
  "no_issue = [0xBB38, 0xC81C, 0x20, 0xC5C6, 0xC74C]"

definition sl_high_msg :: ustring where
  \<comment> \<open>"stop loss is higher than or equal to the entry price"\<close>
  "sl_high_msg = [0xC2A4, 0xD0D1, 0xB85C, 0xC2A4, 0xAC00, 0x20, 0xC9C4, 0xC785, 0xAC00,
     0xBCF4, 0xB2E4, 0x20, 0xB192, 0xAC70, 0xB098, 0x20, 0xAC19, 0xC74C]"

definition sl_low_msg :: ustring where
  \<comment> \<open>"stop loss is lower than or equal to the entry price"\<close>
  "sl_low_msg = [0xC2A4, 0xD0D1, 0xB85C, 0xC2A4, 0xAC00, 0x20, 0xC9C4, 0xC785, 0xAC00,
     0xBCF4, 0xB2E4, 0x20, 0xB0AE, 0xAC70, 0xB098, 0x20, 0xAC19, 0xC74C]"

definition tp_entry_low_msg :: "nat \<Rightarrow> ustring" where
  \<comment> \<open>"take profit number idx is lower than or equal to the entry price"\<close>
  "tp_entry_low_msg idx = dec idx @ [0xCC28, 0x20, 0xC775, 0xC808, 0xC774, 0x20, 0xC9C4,
     0xC785, 0xAC00, 0xBCF4, 0xB2E4, 0x20, 0xB0AE, 0xAC70, 0xB098, 0x20, 0xAC19, 0xC74C]"

definition tp_prev_low_msg :: "nat \<Rightarrow> ustring" where
  \<comment> \<open>"take profit number idx is lower than or equal to the previous take profit"\<close>
  "tp_prev_low_msg idx = dec idx @ [0xCC28, 0x20, 0xC775, 0xC808, 0xC774, 0x20, 0xC774,
     0xC804, 0x20, 0xC775, 0xC808, 0xAC00, 0xBCF4, 0xB2E4, 0x20, 0xB0AE, 0xAC70, 0xB098,
     0x20, 0xAC19, 0xC74C]"

definition tp_entry_high_msg :: "nat \<Rightarrow> ustring" where
  \<comment> \<open>"take profit number idx is higher than or equal to the entry price"\<close>
  "tp_entry_high_msg idx = dec idx @ [0xCC28, 0x20, 0xC775, 0xC808, 0xC774, 0x20, 0xC9C4,
     0xC785, 0xAC00, 0xBCF4, 0xB2E4, 0x20, 0xB192, 0xAC70, 0xB098, 0x20, 0xAC19, 0xC74C]"

definition tp_prev_high_msg :: "nat \<Rightarrow> ustring" where
  \<comment> \<open>"take profit number idx is higher than or equal to the previous take profit"\<close>
  "tp_prev_high_msg idx = dec idx @ [0xCC28, 0x20, 0xC775, 0xC808, 0xC774, 0x20, 0xC774,
     0xC804, 0x20, 0xC775, 0xC808, 0xAC00, 0xBCF4, 0xB2E4, 0x20, 0xB192, 0xAC70, 0xB098,
     0x20, 0xAC19, 0xC74C]"

definition sl_adjust_msg :: ustring where
  \<comment> \<open>"SL adjustment needed"\<close>
  "sl_adjust_msg = [0x53, 0x4C, 0x20, 0xC870, 0xC815, 0x20, 0xD544, 0xC694]"

definition size_adjust_msg :: ustring where
  \<comment> \<open>"size adjustment needed"\<close>
  "size_adjust_msg = [0xC0AC, 0xC774, 0xC988, 0x20, 0xC870, 0xC815, 0x20, 0xD544, 0xC694]"

subsection \<open>Step 7: structural issues\<close>

text \<open>
  The two loops over \<^verbatim>\<open>enumerate(take_profits, start=1)\<close>, with the running
  \<^verbatim>\<open>prev_tp\<close> and the index as arguments; the value is the list of messages the loop
  appends to \<^verbatim>\<open>issues\<close>.
\<close>

fun long_walk :: "real \<Rightarrow> real \<Rightarrow> nat \<Rightarrow> real list \<Rightarrow> ustring list" where
  "long_walk entry prev_tp idx [] = []"
| "long_walk entry prev_tp idx (tp # tps) =
     (if tp \<le> entry then [tp_entry_low_msg idx] else []) @
     (if tp \<le> prev_tp then [tp_prev_low_msg idx] else []) @
     long_walk entry tp (Suc idx) tps"

fun short_walk :: "real \<Rightarrow> real \<Rightarrow> nat \<Rightarrow> real list \<Rightarrow> ustring list" where
  "short_walk entry prev_tp idx [] = []"
| "short_walk entry prev_tp idx (tp # tps) =
     (if tp \<ge> entry then [tp_entry_high_msg idx] else []) @
     (if tp \<ge> prev_tp then [tp_prev_high_msg idx] else []) @
     short_walk entry tp (Suc idx) tps"

text \<open>The list \<^verbatim>\<open>issues\<close> at the end of \<^verbatim>\<open>check_structural_issues\<close>.\<close>

definition issues :: "direction \<Rightarrow> real \<Rightarrow> real \<Rightarrow> real list \<Rightarrow> ustring list" where
  "issues dir entry stop tps =
     (if dir = LONG
      then (if stop \<ge> entry then [sl_high_msg] else []) @ long_walk entry entry 1 tps
      else (if stop \<le> entry then [sl_low_msg] else []) @ short_walk entry entry 1 tps)"

definition check_structural_issues ::
  "direction \<Rightarrow> real \<Rightarrow> real \<Rightarrow> real list \<Rightarrow> ustring" where
  "check_structural_issues dir entry stop tps =
     (let found = issues dir entry stop tps
      in if found = [] then no_issue else join slash found)"

subsection \<open>Step 8: overall judgment\<close>

text \<open>The list \<^verbatim>\<open>judgments\<close> at the end of \<^verbatim>\<open>judge_overall\<close>.\<close>

definition judgments :: "real \<Rightarrow> real \<Rightarrow> ustring \<Rightarrow> ustring list" where
  "judgments leverage sl_pct issue =
     (if issue \<noteq> no_issue then [sl_adjust_msg] else []) @
     (if leverage > MAX_LEVERAGE then [size_adjust_msg]
      else if leverage < MIN_LEVERAGE \<and> sl_pct < 1 then [size_adjust_msg]
      else []) @
     (if sl_pct > 5 then [sl_adjust_msg] else [])"

definition judge_overall :: "real \<Rightarrow> real \<Rightarrow> ustring \<Rightarrow> ustring" where
  "judge_overall leverage sl_pct issue =
     (let found = judgments leverage sl_pct issue
      in if found = [] then no_issue else join slash found)"

subsection \<open>The pipeline\<close>

definition calculate_trading_results :: "TradingInputs \<Rightarrow> error + TradingResults" where
  "calculate_trading_results inputs =
     (let risk_amount = calculate_risk_amount (total_asset inputs) (risk_ratio inputs) in
      ebind (calculate_stop_loss (direction inputs) (entry_price inputs) (stop_loss inputs))
        (\<lambda>(sl_pct, sl_price).
      ebind (calculate_position_size (direction inputs) (entry_price inputs)
               (stop_loss inputs) risk_amount)
        (\<lambda>(notional, quantity).
      let actual_loss = calculate_actual_loss (direction inputs) (entry_price inputs)
                          (stop_loss inputs) notional quantity in
      ebind (calculate_leverage notional risk_amount (total_asset inputs)
               (margin_usage_ratio inputs))
        (\<lambda>(leverage, effective, margin).
      ebind (calculate_rr_and_profit (direction inputs) (entry_price inputs)
               (stop_loss inputs) (take_profits inputs) notional quantity sl_pct)
        (\<lambda>tp_results.
      let issue = check_structural_issues (direction inputs) (entry_price inputs)
                    (stop_loss inputs) (take_profits inputs);
          judgment = judge_overall leverage sl_pct issue in
      Inr \<lparr>stop_loss_pct = sl_pct,
           stop_loss_price = sl_price,
           actual_loss_amount = actual_loss,
           position_notional = notional,
           position_quantity = quantity,
           position_leverage = leverage,
           effective_leverage = effective,
           take_profit_results = tp_results,
           structural_issue = issue,
           required_margin = margin,
           overall_judgment = judgment,
           actual_entry_notional = notional,
           actual_entry_quantity = quantity,
           actual_entry_leverage = leverage\<rparr>)))))"

text \<open>The divisor of Step 3 and the divisor of Step 5, as functions of the inputs.\<close>

definition sizing_denominator :: "TradingInputs \<Rightarrow> real" where
  "sizing_denominator inputs =
     price_diff (direction inputs) (entry_price inputs) (stop_loss inputs)
       + fee_per_unit (entry_price inputs) (stop_loss inputs)"

definition min_margin_of :: "TradingInputs \<Rightarrow> real" where
  "min_margin_of inputs = total_asset inputs * (margin_usage_ratio inputs / 100)"

text \<open>The scenario of the specification, with the margin usage ratio as a parameter.\<close>

definition example_inputs :: "real \<Rightarrow> TradingInputs" where
  "example_inputs usage =
     \<lparr>total_asset = 10000, risk_ratio = 5, direction = LONG, entry_price = 50000,
      stop_loss = 49000, take_profits = [51000, 52000], margin_usage_ratio = usage\<rparr>"

section \<open>Properties of the steps\<close>

lemma ebind_Inr [simp]: "ebind (Inr v) f = f v"
  by (simp add: ebind_def)

lemma ebind_Inl [simp]: "ebind (Inl e) f = Inl e"
  by (simp add: ebind_def)

lemma ebind_eq_Inr: "ebind m f = Inr y \<longleftrightarrow> (\<exists>v. m = Inr v \<and> f v = Inr y)"
  by (cases m) simp_all

lemma fdiv_eq_Inr: "fdiv a b = Inr q \<longleftrightarrow> b \<noteq> 0 \<and> q = a / b"
  by (auto simp: fdiv_def)

lemma error_is_zero_division: "(e::error) = ZeroDivisionError"
  by (cases e) simp

lemma calculate_stop_loss_eq_Inr:
  "calculate_stop_loss dir entry stop = Inr (p, s) \<longleftrightarrow>
     entry \<noteq> 0 \<and> s = stop \<and> p = price_diff dir entry stop / entry * 100"
  by (auto simp: calculate_stop_loss_def price_diff_def ebind_eq_Inr fdiv_eq_Inr)

lemma calculate_position_size_eq_Inr:
  "calculate_position_size dir entry stop risk = Inr (n, q) \<longleftrightarrow>
     price_diff dir entry stop + fee_per_unit entry stop \<noteq> 0 \<and>
     q = risk / (price_diff dir entry stop + fee_per_unit entry stop) \<and> n = entry * q"
  by (auto simp: calculate_position_size_def ebind_eq_Inr fdiv_eq_Inr)

lemma calculate_actual_loss_eq:
  "calculate_actual_loss dir entry stop (entry * q) q =
     q * (price_diff dir entry stop + fee_per_unit entry stop)"
  by (simp add: calculate_actual_loss_def price_diff_def fee_per_unit_def algebra_simps)

lemma calculate_leverage_eq_Inr:
  "calculate_leverage n risk a u = Inr (lev, eff, m) \<longleftrightarrow>
     a * (u / 100) \<noteq> 0 \<and>
     lev = (if n / (a * (u / 100)) \<le> MAX_LEVERAGE
            then (if n / (a * (u / 100)) < MIN_LEVERAGE then MIN_LEVERAGE
                  else n / (a * (u / 100)))
            else MAX_LEVERAGE) \<and>
     eff = n / a \<and> m = n / lev"
  by (auto simp: calculate_leverage_def Let_def ebind_eq_Inr fdiv_eq_Inr
        MIN_LEVERAGE_def MAX_LEVERAGE_def split: if_splits)

lemma calculate_leverage_bounds:
  "calculate_leverage n risk a u = Inr (lev, eff, m) \<Longrightarrow>
     MIN_LEVERAGE \<le> lev \<and> lev \<le> MAX_LEVERAGE"
  by (auto simp: calculate_leverage_eq_Inr MIN_LEVERAGE_def MAX_LEVERAGE_def)

lemma rr_entry_eq_Inr:
  "rr_entry dir entry q sl_pct fee loss tp = Inr e \<longleftrightarrow>
     entry \<noteq> 0 \<and>
     e = \<lparr>rr_ratio = (if sl_pct > 0
                      then (if dir = LONG then (tp - entry) / entry else (entry - tp) / entry)
                           * 100 / sl_pct
                      else 0),
          actual_rr = (if loss > 0
                       then ((if dir = LONG then (tp - entry) * q else (entry - tp) * q)
                             - fee - tp * q * TAKER_FEE_RATE) / loss
                       else 0),
          profit = (if dir = LONG then (tp - entry) * q else (entry - tp) * q)
                   - fee - tp * q * TAKER_FEE_RATE\<rparr>"
  by (auto simp: rr_entry_def Let_def ebind_eq_Inr fdiv_eq_Inr)

lemma rr_entry_total:
  "entry \<noteq> 0 \<Longrightarrow> \<exists>e. rr_entry dir entry q sl_pct fee loss tp = Inr e"
  by (simp add: rr_entry_eq_Inr)

lemma rr_entry_fields:
  assumes "rr_entry dir entry q sl_pct fee loss tp = Inr e"
  shows "sl_pct \<le> 0 \<Longrightarrow> rr_ratio e = 0"
    and "actual_rr e = (if loss > 0 then profit e / loss else 0)"
  using assms by (simp_all add: rr_entry_eq_Inr)

lemma rr_loop_total:
  "entry \<noteq> 0 \<Longrightarrow> \<exists>rs. rr_loop dir entry q sl_pct fee loss idx tps = Inr rs"
proof (induction tps arbitrary: idx)
  case Nil
  show ?case by simp
next
  case (Cons tp tps)
  from Cons.prems obtain e where "rr_entry dir entry q sl_pct fee loss tp = Inr e"
    using rr_entry_total by blast
  moreover from Cons obtain rs where "rr_loop dir entry q sl_pct fee loss (Suc idx) tps = Inr rs"
    by blast
  ultimately show ?case by simp
qed

lemma rr_loop_Cons_Inr:
  assumes "rr_loop dir entry q sl_pct fee loss idx (tp # tps) = Inr rs"
  obtains r rs' where "rr_entry dir entry q sl_pct fee loss tp = Inr r"
    and "rr_loop dir entry q sl_pct fee loss (Suc idx) tps = Inr rs'"
    and "rs = (idx, r) # rs'"
  using assms by (auto simp: ebind_eq_Inr)

lemma rr_loop_entries:
  "rr_loop dir entry q sl_pct fee loss idx tps = Inr rs \<Longrightarrow> (k, e) \<in> set rs \<Longrightarrow>
     \<exists>tp \<in> set tps. rr_entry dir entry q sl_pct fee loss tp = Inr e"
proof (induction tps arbitrary: idx rs)
  case Nil
  then show ?case by simp
next
  case (Cons tp tps)
  from Cons.prems(1) obtain r rs' where
    r: "rr_entry dir entry q sl_pct fee loss tp = Inr r" and
    rs': "rr_loop dir entry q sl_pct fee loss (Suc idx) tps = Inr rs'" and
    rs: "rs = (idx, r) # rs'"
    by (rule rr_loop_Cons_Inr)
  from Cons.prems(2) rs have "e = r \<or> (k, e) \<in> set rs'"
    by auto
  then show ?case
  proof
    assume "e = r"
    with r show ?thesis by simp
  next
    assume "(k, e) \<in> set rs'"
    with Cons.IH [OF rs'] show ?thesis by simp
  qed
qed

lemma rr_loop_keys:
  "rr_loop dir entry q sl_pct fee loss idx tps = Inr rs \<Longrightarrow>
     map fst rs = [idx ..< idx + length tps]"
proof (induction tps arbitrary: idx rs)
  case Nil
  then show ?case by simp
next
  case (Cons tp tps)
  from Cons.prems obtain r rs' where
    rs': "rr_loop dir entry q sl_pct fee loss (Suc idx) tps = Inr rs'" and
    rs: "rs = (idx, r) # rs'"
    by (rule rr_loop_Cons_Inr)
  have "map fst rs = idx # [Suc idx ..< Suc idx + length tps]"
    using Cons.IH [OF rs'] rs by simp
  also have "\<dots> = [idx ..< idx + length (tp # tps)]"
    by (simp add: upt_rec)
  finally show ?case .
qed

lemma calculate_rr_and_profit_Nil:
  "calculate_rr_and_profit dir entry stop [] n q sl_pct = Inr []"
  by (simp add: calculate_rr_and_profit_def Let_def)

lemma calculate_rr_and_profit_loop:
  "calculate_rr_and_profit dir entry stop tps n q sl_pct =
     rr_loop dir entry q sl_pct (n * TAKER_FEE_RATE)
       (calculate_actual_loss dir entry stop n q) 1 tps"
  by (simp add: calculate_rr_and_profit_def calculate_actual_loss_def Let_def)

lemma calculate_rr_and_profit_total:
  "entry \<noteq> 0 \<Longrightarrow> \<exists>rs. calculate_rr_and_profit dir entry stop tps n q sl_pct = Inr rs"
  unfolding calculate_rr_and_profit_loop by (rule rr_loop_total)

lemma calculate_trading_results_InrD:
  assumes "calculate_trading_results i = Inr r"
  obtains sl_pct n q lev eff m tpr where
    "calculate_stop_loss (direction i) (entry_price i) (stop_loss i) = Inr (sl_pct, stop_loss i)"
    "calculate_position_size (direction i) (entry_price i) (stop_loss i)
       (calculate_risk_amount (total_asset i) (risk_ratio i)) = Inr (n, q)"
    "calculate_leverage n (calculate_risk_amount (total_asset i) (risk_ratio i))
       (total_asset i) (margin_usage_ratio i) = Inr (lev, eff, m)"
    "calculate_rr_and_profit (direction i) (entry_price i) (stop_loss i) (take_profits i)
       n q sl_pct = Inr tpr"
    "stop_loss_pct r = sl_pct" "stop_loss_price r = stop_loss i"
    "actual_loss_amount r = calculate_actual_loss (direction i) (entry_price i) (stop_loss i) n q"
    "position_notional r = n" "position_quantity r = q"
    "position_leverage r = lev" "effective_leverage r = eff" "required_margin r = m"
    "take_profit_results r = tpr"
    "structural_issue r = check_structural_issues (direction i) (entry_price i) (stop_loss i)
       (take_profits i)"
    "overall_judgment r = judge_overall lev sl_pct (structural_issue r)"
  using assms
  by (auto simp: calculate_trading_results_def Let_def ebind_eq_Inr calculate_stop_loss_eq_Inr)

lemma calculate_trading_results_total:
  assumes "entry_price i \<noteq> 0" "sizing_denominator i \<noteq> 0" "min_margin_of i \<noteq> 0"
  shows "\<exists>r. calculate_trading_results i = Inr r"
proof -
  let ?risk = "calculate_risk_amount (total_asset i) (risk_ratio i)"
  obtain p where sl: "calculate_stop_loss (direction i) (entry_price i) (stop_loss i)
      = Inr (p, stop_loss i)"
    using assms(1) by (simp add: calculate_stop_loss_eq_Inr)
  obtain n q where ps: "calculate_position_size (direction i) (entry_price i) (stop_loss i) ?risk
      = Inr (n, q)"
    using assms(2) by (simp add: calculate_position_size_eq_Inr sizing_denominator_def)
  obtain lev eff m where lv: "calculate_leverage n ?risk (total_asset i) (margin_usage_ratio i)
      = Inr (lev, eff, m)"
    using assms(3) by (simp add: calculate_leverage_eq_Inr min_margin_of_def)
  obtain tpr where rr: "calculate_rr_and_profit (direction i) (entry_price i) (stop_loss i)
      (take_profits i) n q p = Inr tpr"
    using calculate_rr_and_profit_total [OF assms(1)] by blast
  show ?thesis
    by (simp add: calculate_trading_results_def Let_def sl ps lv rr)
qed

lemma calculate_trading_results_fault:
  assumes "entry_price i = 0 \<or> sizing_denominator i = 0 \<or> min_margin_of i = 0"
  shows "calculate_trading_results i = Inl ZeroDivisionError"
proof (cases "calculate_trading_results i")
  case (Inl e)
  then show ?thesis by (simp add: error_is_zero_division [of e])
next
  case (Inr r)
  then show ?thesis
    using assms
    by (elim calculate_trading_results_InrD)
       (auto simp: calculate_stop_loss_eq_Inr calculate_position_size_eq_Inr
          calculate_leverage_eq_Inr sizing_denominator_def min_margin_of_def)
qed

subsection \<open>The pipeline on the scenario of the specification\<close>

text \<open>
  The worked scenario: every field of the result, in exact arithmetic.
\<close>

lemma example_scenario:
  "calculate_trading_results (example_inputs 60) =
     Inr \<lparr>stop_loss_pct = 2,
          stop_loss_price = 49000,
          actual_loss_amount = 500,
          position_notional = 62500000 / 2599,
          position_quantity = 1250 / 2599,
          position_leverage = 31250 / 7797,
          effective_leverage = 6250 / 2599,
          take_profit_results =
            [(1, \<lparr>rr_ratio = 1, actual_rr = 2399 / 2599, profit = 1199500 / 2599\<rparr>),
             (2, \<lparr>rr_ratio = 2, actual_rr = 4898 / 2599, profit = 2449000 / 2599\<rparr>)],
          structural_issue = no_issue,
          required_margin = 6000,
          overall_judgment = no_issue,
          actual_entry_notional = 62500000 / 2599,
          actual_entry_quantity = 1250 / 2599,
          actual_entry_leverage = 31250 / 7797\<rparr>"
  by (simp add: example_inputs_def calculate_trading_results_def calculate_risk_amount_def
        calculate_stop_loss_def calculate_position_size_def calculate_actual_loss_def
        calculate_leverage_def calculate_rr_and_profit_def rr_entry_def
        check_structural_issues_def issues_def judge_overall_def judgments_def
        price_diff_def fee_per_unit_def fdiv_def TAKER_FEE_RATE_def MIN_LEVERAGE_def
        MAX_LEVERAGE_def Let_def)

lemma example_entry: "entry_price (example_inputs u) \<noteq> 0"
  by (simp add: example_inputs_def)

lemma example_denominator: "sizing_denominator (example_inputs u) \<noteq> 0"
  by (simp add: example_inputs_def sizing_denominator_def price_diff_def fee_per_unit_def
        TAKER_FEE_RATE_def)

lemma example_margin: "u \<noteq> 0 \<Longrightarrow> min_margin_of (example_inputs u) \<noteq> 0"
  by (simp add: example_inputs_def min_margin_of_def)

lemma example_returns: "u \<noteq> 0 \<Longrightarrow> \<exists>r. calculate_trading_results (example_inputs u) = Inr r"
  by (intro calculate_trading_results_total example_entry example_denominator example_margin)

lemma result_stop_loss_pct:
  "calculate_trading_results i = Inr r \<Longrightarrow>
     stop_loss_pct r = price_diff (direction i) (entry_price i) (stop_loss i) / entry_price i * 100"
  by (erule calculate_trading_results_InrD) (simp add: calculate_stop_loss_eq_Inr)

lemma result_keys:
  "calculate_trading_results i = Inr r \<Longrightarrow>
     map fst (take_profit_results r) = [1 ..< 1 + length (take_profits i)]"
  by (erule calculate_trading_results_InrD)
     (auto simp: calculate_rr_and_profit_loop dest: rr_loop_keys)

subsection \<open>Messages\<close>

lemma undec_dec: "undec (dec n) = n"
proof (induction n rule: dec.induct)
  case (1 n)
  show ?case
  proof (cases "n < 10")
    case True
    then show ?thesis by (simp add: dec.simps [of n] undec_def)
  next
    case False
    with 1 have "undec (dec (n div 10)) = n div 10" by simp
    with False show ?thesis by (simp add: dec.simps [of n] undec_def)
  qed
qed

lemma dec_inject: "dec m = dec n \<Longrightarrow> m = n"
  by (metis undec_dec)

lemma dec_digits: "c \<in> set (dec n) \<Longrightarrow> c < 58"
proof (induction n rule: dec.induct)
  case (1 n)
  show ?case
  proof (cases "n < 10")
    case True
    with "1.prems" show ?thesis by (simp add: dec.simps [of n])
  next
    case False
    with "1.prems" have "c \<in> set (dec (n div 10)) \<or> c = 48 + n mod 10"
      by (auto simp: dec.simps [of n])
    then show ?thesis
    proof
      assume "c \<in> set (dec (n div 10))"
      with False "1.IH" show ?thesis by simp
    next
      assume "c = 48 + n mod 10"
      then show ?thesis by simp
    qed
  qed
qed

lemma dec_not_Nil: "dec n \<noteq> []"
  by (subst dec.simps) simp

lemma digits_prefix_unique:
  assumes "\<forall>c \<in> set xs. c < (58::nat)" "\<forall>c \<in> set ys. c < 58" "58 \<le> a" "58 \<le> b"
    and "xs @ a # r = ys @ b # s"
  shows "xs = ys \<and> a # r = b # s"
  using assms
proof (induction xs arbitrary: ys)
  case Nil
  then show ?case by (cases ys) auto
next
  case (Cons x xs)
  then show ?case by (cases ys) auto
qed

lemma join_Cons_prefix: "\<exists>post. join sep (x # xs) = x @ post"
  by (cases xs) simp_all

lemma join_contains: "x \<in> set xs \<Longrightarrow> \<exists>pre post. join sep xs = pre @ x @ post"
proof (induction sep xs rule: join.induct)
  case (1 sep)
  then show ?case by simp
next
  case (2 sep y)
  then have "join sep [y] = [] @ x @ []" by simp
  then show ?case by blast
next
  case (3 sep y z zs)
  show ?case
  proof (cases "x = y")
    case True
    then have "join sep (y # z # zs) = [] @ x @ (sep @ join sep (z # zs))" by simp
    then show ?thesis by blast
  next
    case False
    with 3 obtain pre post where "join sep (z # zs) = pre @ x @ post" by auto
    then have "join sep (y # z # zs) = (y @ sep @ pre) @ x @ post" by simp
    then show ?thesis by blast
  qed
qed

lemma tp_prev_low_msg_inject: "tp_prev_low_msg i = tp_prev_low_msg j \<Longrightarrow> i = j"
  by (simp add: tp_prev_low_msg_def dec_inject)

lemma tp_prev_low_neq_entry_low: "tp_prev_low_msg i \<noteq> tp_entry_low_msg j"
proof
  assume eq: "tp_prev_low_msg i = tp_entry_low_msg j"
  have "\<forall>c \<in> set (dec i). c < 58" "\<forall>c \<in> set (dec j). c < 58"
    by (auto dest: dec_digits)
  from digits_prefix_unique [OF this _ _ eq [unfolded tp_prev_low_msg_def tp_entry_low_msg_def append_Cons [symmetric]]]
  show False
    by simp
qed

lemma tp_prev_low_neq_sl_high: "tp_prev_low_msg i \<noteq> sl_high_msg"
proof
  assume eq: "tp_prev_low_msg i = sl_high_msg"
  obtain d ds where d: "dec i = d # ds"
    using dec_not_Nil [of i] by (cases "dec i") auto
  then have "d < 58"
    using dec_digits [of d i] by simp
  moreover from eq d have "d = 0xC2A4"
    by (simp add: tp_prev_low_msg_def sl_high_msg_def)
  ultimately show False by simp
qed

lemma ex_less_length_Cons:
  "(\<exists>j < length (x # xs). Q j) \<longleftrightarrow> Q 0 \<or> (\<exists>j < length xs. Q (Suc j))"
proof
  assume "\<exists>j < length (x # xs). Q j"
  then obtain j where j: "j < length (x # xs)" "Q j" by blast
  show "Q 0 \<or> (\<exists>j < length xs. Q (Suc j))"
  proof (cases j)
    case 0
    with j show ?thesis by simp
  next
    case (Suc m)
    with j have "m < length xs" "Q (Suc m)" by simp_all
    then show ?thesis by blast
  qed
next
  assume "Q 0 \<or> (\<exists>j < length xs. Q (Suc j))"
  then show "\<exists>j < length (x # xs). Q j"
  proof
    assume "Q 0"
    then show ?thesis by auto
  next
    assume "\<exists>j < length xs. Q (Suc j)"
    then obtain m where "m < length xs" "Q (Suc m)" by blast
    then have "Suc m < length (x # xs)" "Q (Suc m)" by simp_all
    then show ?thesis by blast
  qed
qed

lemma long_walk_prev_flag_step:
  "tp_prev_low_msg k \<in> set (long_walk entry prev idx (tp # tps)) \<longleftrightarrow>
      (k = idx \<and> tp \<le> prev) \<or> tp_prev_low_msg k \<in> set (long_walk entry tp (Suc idx) tps)"
  using tp_prev_low_msg_inject [of k idx]
  by (auto simp: tp_prev_low_neq_entry_low)

lemma long_walk_prev_flag:
  "tp_prev_low_msg k \<in> set (long_walk entry prev idx tps) \<longleftrightarrow>
     (\<exists>j < length tps. k = idx + j \<and> tps ! j \<le> (if j = 0 then prev else tps ! (j - 1)))"
proof (induction tps arbitrary: prev idx)
  case Nil
  show ?case by simp
next
  case (Cons tp tps)
  show ?case
    unfolding long_walk_prev_flag_step Cons.IH ex_less_length_Cons
    by (simp add: nth_Cons')
qed

section \<open>The claims\<close>

text \<open>
  C1. Whenever the sizing denominator \<open>price_diff + (entry_price + stop_loss) * FEE_RATE\<close>
  is nonzero, Step 3 returns a quantity, and the fee-inclusive loss of Step 4 at that
  quantity (price loss, entry fee on the notional, exit fee on \<open>stop_loss * quantity\<close>)
  is exactly the risk budget \<open>total_asset * risk_ratio / 100\<close>, for LONG and for SHORT,
  in exact arithmetic.
\<close>

theorem sizing_meets_risk_budget:
  assumes "price_diff dir entry stop + fee_per_unit entry stop \<noteq> 0"
  shows "\<exists>notional quantity.
           calculate_position_size dir entry stop (calculate_risk_amount asset ratio)
             = Inr (notional, quantity) \<and>
           calculate_actual_loss dir entry stop notional quantity = asset * ratio / 100"
proof -
  let ?d = "price_diff dir entry stop + fee_per_unit entry stop"
  let ?q = "calculate_risk_amount asset ratio / ?d"
  have size: "calculate_position_size dir entry stop (calculate_risk_amount asset ratio)
                = Inr (entry * ?q, ?q)"
    using assms by (simp add: calculate_position_size_eq_Inr)
  have "calculate_actual_loss dir entry stop (entry * ?q) ?q = ?q * ?d"
    by (rule calculate_actual_loss_eq)
  also have "\<dots> = calculate_risk_amount asset ratio"
    using assms by simp
  also have "\<dots> = asset * ratio / 100"
    by (simp add: calculate_risk_amount_def)
  finally show ?thesis
    using size by blast
qed

theorem sizing_meets_risk_budget_witness:
  "price_diff LONG 50000 49000 + fee_per_unit 50000 49000 \<noteq> 0 \<and>
   (\<exists>notional quantity.
      calculate_position_size LONG 50000 49000 (calculate_risk_amount 10000 5)
        = Inr (notional, quantity) \<and>
      calculate_actual_loss LONG 50000 49000 notional quantity = 10000 * 5 / 100)"
proof -
  have h: "price_diff LONG 50000 49000 + fee_per_unit 50000 49000 \<noteq> 0"
    by (simp add: price_diff_def fee_per_unit_def TAKER_FEE_RATE_def)
  show ?thesis
    using h sizing_meets_risk_budget [OF h, of 10000 5] by simp
qed

text \<open>
  C2. Whatever the inputs, of any magnitude or sign, the \<open>position_leverage\<close> that the
  calculation returns lies between 3 and 150, both included.
\<close>

theorem position_leverage_in_range:
  assumes "calculate_trading_results inputs = Inr r"
  shows "3 \<le> position_leverage r \<and> position_leverage r \<le> 150"
  using assms
  by (elim calculate_trading_results_InrD)
     (auto dest: calculate_leverage_bounds simp: MIN_LEVERAGE_def MAX_LEVERAGE_def)

theorem position_leverage_in_range_witness:
  "\<exists>r. calculate_trading_results (example_inputs 60) = Inr r \<and>
       3 \<le> position_leverage r \<and> position_leverage r \<le> 150"
proof -
  obtain r where r: "calculate_trading_results (example_inputs 60) = Inr r"
    using example_returns [of 60] by auto
  from position_leverage_in_range [OF r] r show ?thesis by blast
qed

text \<open>
  C3. The claim is that the calculation returns a result for every input, also when
  \<open>min_margin = 0\<close>, a division by zero giving a non-finite number. It does not: Python
  raises \<^verbatim>\<open>ZeroDivisionError\<close> on a float division by zero, and with
  \<open>margin_usage_ratio = 0\<close> Step 5 divides by \<open>min_margin = 0\<close>.
\<close>

theorem zero_margin_usage_counterexample:
  "calculate_trading_results
     \<lparr>total_asset = 10000, risk_ratio = 5, direction = LONG, entry_price = 50000,
      stop_loss = 49000, take_profits = [51000, 52000], margin_usage_ratio = 0\<rparr>
   = Inl ZeroDivisionError"
  by (rule calculate_trading_results_fault) (simp add: min_margin_of_def)

text \<open>
  C3, as amended. The calculation returns a result exactly when its three divisors are
  nonzero: \<open>entry_price\<close> (Steps 2 and 6), the sizing denominator (Step 3) and
  \<open>min_margin\<close> (Step 5, which also covers \<open>total_asset\<close>); otherwise it raises
  \<^verbatim>\<open>ZeroDivisionError\<close>.
\<close>

theorem calculation_returns_unless_zero_divisor:
  "((\<exists>r. calculate_trading_results inputs = Inr r) \<longleftrightarrow>
      entry_price inputs \<noteq> 0 \<and> sizing_denominator inputs \<noteq> 0 \<and> min_margin_of inputs \<noteq> 0) \<and>
   ((\<nexists>r. calculate_trading_results inputs = Inr r) \<longleftrightarrow>
      calculate_trading_results inputs = Inl ZeroDivisionError)"
proof -
  have "(\<exists>r. calculate_trading_results inputs = Inr r) \<longleftrightarrow>
      entry_price inputs \<noteq> 0 \<and> sizing_denominator inputs \<noteq> 0 \<and> min_margin_of inputs \<noteq> 0"
    using calculate_trading_results_total [of inputs]
      calculate_trading_results_fault [of inputs]
    by auto
  moreover have "(\<nexists>r. calculate_trading_results inputs = Inr r) \<longleftrightarrow>
      calculate_trading_results inputs = Inl ZeroDivisionError"
    by (cases "calculate_trading_results inputs") (simp_all add: error_is_zero_division)
  ultimately show ?thesis by simp
qed

theorem calculation_returns_unless_zero_divisor_witness:
  "entry_price (example_inputs 60) \<noteq> 0 \<and> sizing_denominator (example_inputs 60) \<noteq> 0 \<and>
   min_margin_of (example_inputs 60) \<noteq> 0 \<and>
   (\<exists>r. calculate_trading_results (example_inputs 60) = Inr r)"
  using calculation_returns_unless_zero_divisor [of "example_inputs 60"]
    example_entry [of 60] example_denominator [of 60] example_margin [of 60]
  by simp

text \<open>
  C4. The claim is that a zero or negative \<open>stop_loss_pct\<close> makes \<open>rr_ratio\<close> and
  \<open>actual_rr\<close> zero in every entry. For \<open>actual_rr\<close> it fails: its guard tests the
  fee-inclusive loss, which Step 3 makes equal to the risk budget, not \<open>stop_loss_pct\<close>.
  A LONG setup with the stop above the entry has \<open>stop_loss_pct = -2\<close> and a nonzero
  \<open>actual_rr\<close>.
\<close>

theorem inverted_stop_actual_rr_counterexample:
  "map_sum id stop_loss_pct
     (calculate_trading_results
        \<lparr>total_asset = 10000, risk_ratio = 5, direction = LONG, entry_price = 50000,
         stop_loss = 51000, take_profits = [52000], margin_usage_ratio = 60\<rparr>)
     = Inr (- 2) \<and>
   map_sum id take_profit_results
     (calculate_trading_results
        \<lparr>total_asset = 10000, risk_ratio = 5, direction = LONG, entry_price = 50000,
         stop_loss = 51000, take_profits = [52000], margin_usage_ratio = 60\<rparr>)
     = Inr [(1, \<lparr>rr_ratio = 0, actual_rr = - (4898 / 2399),
                  profit = - (2449000 / 2399)\<rparr>)]"
  by (simp add: calculate_trading_results_def calculate_risk_amount_def
        calculate_stop_loss_def calculate_position_size_def calculate_actual_loss_def
        calculate_leverage_def calculate_rr_and_profit_def rr_entry_def
        price_diff_def fee_per_unit_def fdiv_def TAKER_FEE_RATE_def MIN_LEVERAGE_def
        MAX_LEVERAGE_def Let_def)

text \<open>
  C4, as amended. When the divisors of the other steps are nonzero the calculation returns,
  and if \<open>stop_loss_pct\<close> is zero or negative then every entry has \<open>rr_ratio = 0\<close>, while
  \<open>actual_rr\<close> is the net profit over the fee-inclusive loss when that loss is positive,
  and 0 otherwise: neither guarded division raises.
\<close>

theorem guarded_ratios_when_stop_not_positive:
  assumes "entry_price inputs \<noteq> 0" "sizing_denominator inputs \<noteq> 0"
    and "min_margin_of inputs \<noteq> 0"
  shows "\<exists>r. calculate_trading_results inputs = Inr r \<and>
           (stop_loss_pct r \<le> 0 \<longrightarrow>
              (\<forall>(k, e) \<in> set (take_profit_results r).
                 rr_ratio e = 0 \<and>
                 actual_rr e = (if actual_loss_amount r > 0
                                then profit e / actual_loss_amount r else 0)))"
proof -
  obtain r where r: "calculate_trading_results inputs = Inr r"
    using calculate_trading_results_total [OF assms] by blast
  have "rr_ratio e = 0 \<and>
        actual_rr e = (if actual_loss_amount r > 0 then profit e / actual_loss_amount r else 0)"
    if neg: "stop_loss_pct r \<le> 0" and mem: "(k, e) \<in> set (take_profit_results r)" for k e
  proof -
    from r obtain n q where
      loop: "calculate_rr_and_profit (direction inputs) (entry_price inputs) (stop_loss inputs)
               (take_profits inputs) n q (stop_loss_pct r) = Inr (take_profit_results r)" and
      loss: "actual_loss_amount r = calculate_actual_loss (direction inputs)
               (entry_price inputs) (stop_loss inputs) n q"
      by (elim calculate_trading_results_InrD) simp
    from loop mem obtain tp where
      "rr_entry (direction inputs) (entry_price inputs) q (stop_loss_pct r)
         (n * TAKER_FEE_RATE) (actual_loss_amount r) tp = Inr e"
      unfolding calculate_rr_and_profit_loop loss by (blast dest: rr_loop_entries)
    from rr_entry_fields [OF this] neg show ?thesis by simp
  qed
  with r show ?thesis by blast
qed

theorem guarded_ratios_when_stop_not_positive_witness:
  "\<exists>r. calculate_trading_results
          ((example_inputs 60)\<lparr>stop_loss := 51000, take_profits := [52000]\<rparr>) = Inr r \<and>
       stop_loss_pct r \<le> 0 \<and> take_profit_results r \<noteq> [] \<and>
       (\<forall>(k, e) \<in> set (take_profit_results r).
          rr_ratio e = 0 \<and>
          actual_rr e = (if actual_loss_amount r > 0
                         then profit e / actual_loss_amount r else 0))"
proof -
  let ?i = "(example_inputs 60)\<lparr>stop_loss := 51000, take_profits := [52000]\<rparr>"
  have "entry_price ?i \<noteq> 0" "sizing_denominator ?i \<noteq> 0" "min_margin_of ?i \<noteq> 0"
    by (simp_all add: example_inputs_def sizing_denominator_def min_margin_of_def
          price_diff_def fee_per_unit_def TAKER_FEE_RATE_def)
  from guarded_ratios_when_stop_not_positive [OF this] obtain r where
    r: "calculate_trading_results ?i = Inr r" and
    guarded: "stop_loss_pct r \<le> 0 \<longrightarrow>
      (\<forall>(k, e) \<in> set (take_profit_results r).
         rr_ratio e = 0 \<and>
         actual_rr e = (if actual_loss_amount r > 0
                        then profit e / actual_loss_amount r else 0))"
    by blast
  have neg: "stop_loss_pct r \<le> 0"
    using result_stop_loss_pct [OF r] by (simp add: example_inputs_def price_diff_def)
  have "map fst (take_profit_results r) \<noteq> []"
    using result_keys [OF r] by (simp add: example_inputs_def)
  then have "take_profit_results r \<noteq> []" by auto
  with r neg guarded show ?thesis by blast
qed

text \<open>
  C5. The claim is that every input with an empty \<open>take_profits\<close> gives a result, with an
  empty \<open>take_profit_results\<close>. Step 6 does return the empty mapping, but the other steps
  still divide: with \<open>total_asset = 0\<close> Step 5 raises \<^verbatim>\<open>ZeroDivisionError\<close>.
\<close>

theorem empty_targets_zero_asset_counterexample:
  "calculate_trading_results
     \<lparr>total_asset = 0, risk_ratio = 5, direction = LONG, entry_price = 50000,
      stop_loss = 49000, take_profits = [], margin_usage_ratio = 60\<rparr>
   = Inl ZeroDivisionError"
  by (rule calculate_trading_results_fault) (simp add: min_margin_of_def)

text \<open>
  C5, as amended. For every input with an empty \<open>take_profits\<close> whose divisors
  (\<open>entry_price\<close>, sizing denominator, \<open>min_margin\<close>) are nonzero, the calculation returns
  a result whose \<open>take_profit_results\<close> is the empty mapping.
\<close>

theorem empty_targets_give_empty_results:
  assumes "take_profits inputs = []"
    and "entry_price inputs \<noteq> 0" "sizing_denominator inputs \<noteq> 0" "min_margin_of inputs \<noteq> 0"
  shows "\<exists>r. calculate_trading_results inputs = Inr r \<and> take_profit_results r = []"
proof -
  obtain r where r: "calculate_trading_results inputs = Inr r"
    using calculate_trading_results_total [OF assms(2-4)] by blast
  then have "take_profit_results r = []"
    using assms(1)
    by (elim calculate_trading_results_InrD) (simp add: calculate_rr_and_profit_Nil)
  with r show ?thesis by blast
qed

theorem empty_targets_give_empty_results_witness:
  "take_profits ((example_inputs 60)\<lparr>take_profits := []\<rparr>) = [] \<and>
   (\<exists>r. calculate_trading_results ((example_inputs 60)\<lparr>take_profits := []\<rparr>) = Inr r \<and>
        take_profit_results r = [])"
proof -
  let ?i = "(example_inputs 60)\<lparr>take_profits := []\<rparr>"
  have "take_profits ?i = []" "entry_price ?i \<noteq> 0" "sizing_denominator ?i \<noteq> 0"
    "min_margin_of ?i \<noteq> 0"
    by (simp_all add: example_inputs_def sizing_denominator_def min_margin_of_def
          price_diff_def fee_per_unit_def TAKER_FEE_RATE_def)
  from empty_targets_give_empty_results [OF this] show ?thesis by simp
qed

text \<open>
  C6. With \<open>total_asset > 0\<close> and \<open>margin_usage_ratio > 0\<close> (so \<open>min_margin > 0\<close>),
  Step 5 returns a leverage that is never below \<open>MIN_LEVERAGE\<close>; fed to Step 8, it takes
  neither branch that appends "size adjustment needed", so the judgments are those of the
  two stop-loss checks alone.
\<close>

theorem low_leverage_branch_unreachable:
  assumes "asset > 0" "usage > 0"
  shows "\<exists>lev eff m.
           calculate_leverage notional risk asset usage = Inr (lev, eff, m) \<and>
           \<not> lev < MIN_LEVERAGE \<and>
           judgments lev sl_pct issue =
             (if issue \<noteq> no_issue then [sl_adjust_msg] else []) @
             (if sl_pct > 5 then [sl_adjust_msg] else [])"
proof -
  from assms have "asset * (usage / 100) \<noteq> 0" by simp
  then obtain lev eff m where
    lev: "calculate_leverage notional risk asset usage = Inr (lev, eff, m)"
    by (simp add: calculate_leverage_eq_Inr)
  from calculate_leverage_bounds [OF lev]
  have "\<not> lev < MIN_LEVERAGE" "\<not> lev > MAX_LEVERAGE" by simp_all
  then have "judgments lev sl_pct issue =
      (if issue \<noteq> no_issue then [sl_adjust_msg] else []) @
      (if sl_pct > 5 then [sl_adjust_msg] else [])"
    by (simp add: judgments_def)
  with lev \<open>\<not> lev < MIN_LEVERAGE\<close> show ?thesis by blast
qed

theorem low_leverage_branch_unreachable_witness:
  "(10000::real) > 0 \<and> (60::real) > 0 \<and>
   (\<exists>lev eff m.
      calculate_leverage 100 500 10000 60 = Inr (lev, eff, m) \<and>
      \<not> lev < MIN_LEVERAGE \<and>
      judgments lev (1 / 2) no_issue = [])"
  using low_leverage_branch_unreachable [of 10000 60 100 500 "1 / 2" no_issue]
  by simp

text \<open>
  C7. For a LONG setup, target \<open>i\<close> (counted from 1) is flagged as not above the
  previous target exactly when \<open>tp_i \<le> tp_{i-1}\<close>, where the previous price of the
  first target is \<open>entry_price\<close> and the previous price of every later target is the target
  before it, flagged or not. Nothing is assumed about the targets being above the entry
  price, and a flagged target's message is part of the string that is returned.
\<close>

theorem out_of_order_long_target_is_flagged:
  assumes "1 \<le> i" "i \<le> length tps"
  shows "(tp_prev_low_msg i \<in> set (issues LONG entry stop tps) \<longleftrightarrow>
            tps ! (i - 1) \<le> (if i = 1 then entry else tps ! (i - 2))) \<and>
         (tps ! (i - 1) \<le> (if i = 1 then entry else tps ! (i - 2)) \<longrightarrow>
            (\<exists>pre post. check_structural_issues LONG entry stop tps
                          = pre @ tp_prev_low_msg i @ post))"
proof -
  let ?late = "tps ! (i - 1) \<le> (if i = 1 then entry else tps ! (i - 2))"
  have "tp_prev_low_msg i \<in> set (issues LONG entry stop tps) \<longleftrightarrow>
          tp_prev_low_msg i \<in> set (long_walk entry entry 1 tps)"
    by (simp add: issues_def tp_prev_low_neq_sl_high)
  also have "\<dots> \<longleftrightarrow> (\<exists>j < length tps. i = 1 + j \<and>
                 tps ! j \<le> (if j = 0 then entry else tps ! (j - 1)))"
    by (rule long_walk_prev_flag)
  also have "\<dots> \<longleftrightarrow> ?late"
  proof
    assume "\<exists>j < length tps. i = 1 + j \<and> tps ! j \<le> (if j = 0 then entry else tps ! (j - 1))"
    then obtain j where "j < length tps" "i = 1 + j"
      "tps ! j \<le> (if j = 0 then entry else tps ! (j - 1))" by blast
    then show ?late by (auto simp: numeral_2_eq_2 split: if_splits)
  next
    assume late: ?late
    from assms have "i - 1 < length tps" "i = 1 + (i - 1)" by simp_all
    moreover from late assms have
      "tps ! (i - 1) \<le> (if i - 1 = 0 then entry else tps ! (i - 1 - 1))"
      by (auto simp: numeral_2_eq_2 split: if_splits)
    ultimately show "\<exists>j < length tps. i = 1 + j \<and>
        tps ! j \<le> (if j = 0 then entry else tps ! (j - 1))" by blast
  qed
  finally have flagged: "tp_prev_low_msg i \<in> set (issues LONG entry stop tps) \<longleftrightarrow> ?late" .
  have "\<exists>pre post. check_structural_issues LONG entry stop tps = pre @ tp_prev_low_msg i @ post"
    if ?late
  proof -
    from that flagged have mem: "tp_prev_low_msg i \<in> set (issues LONG entry stop tps)"
      by simp
    then have "issues LONG entry stop tps \<noteq> []" by auto
    then have "check_structural_issues LONG entry stop tps
        = join slash (issues LONG entry stop tps)"
      by (simp add: check_structural_issues_def Let_def)
    with join_contains [OF mem] show ?thesis by simp
  qed
  with flagged show ?thesis by blast
qed

theorem out_of_order_long_target_is_flagged_witness:
  "(1::nat) \<le> 2 \<and> 2 \<le> length [52000, 51000 :: real] \<and>
   [52000, 51000 :: real] ! (2 - 1) \<le> [52000, 51000] ! (2 - 2) \<and>
   (50000::real) < 52000 \<and> (50000::real) < 51000 \<and>
   tp_prev_low_msg 2 \<in> set (issues LONG 50000 49000 [52000, 51000]) \<and>
   (\<exists>pre post. check_structural_issues LONG 50000 49000 [52000, 51000]
                 = pre @ tp_prev_low_msg 2 @ post)"
  using out_of_order_long_target_is_flagged [of 2 "[52000, 51000]" 50000 49000]
  by simp

text \<open>
  C8. For a LONG input with \<open>stop_loss = entry_price\<close> the detector raises the stop-loss
  flag: the stop-loss message is the first of the issues, the string that is returned is
  that message followed by the messages of the targets, joined with " / ", so it begins
  with the stop-loss message and is not the "no problem" sentinel; the
  \<open>structural_issue\<close> of a result is that string.
\<close>

theorem long_stop_at_entry_is_flagged:
  assumes "direction inputs = LONG" "stop_loss inputs = entry_price inputs"
  shows "issues (direction inputs) (entry_price inputs) (stop_loss inputs)
           (take_profits inputs)
           = sl_high_msg # long_walk (entry_price inputs) (entry_price inputs) 1
                             (take_profits inputs) \<and>
         check_structural_issues (direction inputs) (entry_price inputs) (stop_loss inputs)
           (take_profits inputs)
           = join slash (sl_high_msg # long_walk (entry_price inputs) (entry_price inputs) 1
                                         (take_profits inputs)) \<and>
         (\<exists>post. check_structural_issues (direction inputs) (entry_price inputs)
                    (stop_loss inputs) (take_profits inputs) = sl_high_msg @ post) \<and>
         check_structural_issues (direction inputs) (entry_price inputs) (stop_loss inputs)
           (take_profits inputs) \<noteq> no_issue \<and>
         (\<forall>r. calculate_trading_results inputs = Inr r \<longrightarrow>
              structural_issue r
                = join slash (sl_high_msg # long_walk (entry_price inputs)
                                              (entry_price inputs) 1 (take_profits inputs)) \<and>
              (\<exists>post. structural_issue r = sl_high_msg @ post) \<and>
              structural_issue r \<noteq> no_issue)"
proof -
  let ?found = "issues (direction inputs) (entry_price inputs) (stop_loss inputs)
                  (take_profits inputs)"
  let ?check = "check_structural_issues (direction inputs) (entry_price inputs)
                  (stop_loss inputs) (take_profits inputs)"
  let ?walk = "long_walk (entry_price inputs) (entry_price inputs) 1 (take_profits inputs)"
  have found: "?found = sl_high_msg # ?walk"
    using assms by (simp add: issues_def)
  then have joined: "?check = join slash (sl_high_msg # ?walk)"
    by (simp add: check_structural_issues_def Let_def)
  obtain post where "join slash (sl_high_msg # ?walk) = sl_high_msg @ post"
    using join_Cons_prefix by blast
  with joined have prefix: "?check = sl_high_msg @ post"
    by simp
  then have differs: "?check \<noteq> no_issue"
    by (simp add: sl_high_msg_def no_issue_def)
  have field: "structural_issue r = ?check" if "calculate_trading_results inputs = Inr r" for r
    using that by (rule calculate_trading_results_InrD)
  from prefix have ex: "\<exists>post. ?check = sl_high_msg @ post"
    by blast
  show ?thesis
  proof (intro conjI allI impI)
    show "?found = sl_high_msg # ?walk" by (rule found)
    show "?check = join slash (sl_high_msg # ?walk)" by (rule joined)
    show "\<exists>post. ?check = sl_high_msg @ post" by (rule ex)
    show "?check \<noteq> no_issue" by (rule differs)
  next
    fix r assume r: "calculate_trading_results inputs = Inr r"
    show "structural_issue r = join slash (sl_high_msg # ?walk)"
      using field [OF r] joined by simp
    show "\<exists>post. structural_issue r = sl_high_msg @ post"
      using field [OF r] ex by simp
    show "structural_issue r \<noteq> no_issue"
      using field [OF r] differs by simp
  qed
qed

theorem long_stop_at_entry_is_flagged_witness:
  "direction ((example_inputs 60)\<lparr>stop_loss := 50000\<rparr>) = LONG \<and>
   stop_loss ((example_inputs 60)\<lparr>stop_loss := 50000\<rparr>)
     = entry_price ((example_inputs 60)\<lparr>stop_loss := 50000\<rparr>) \<and>
   check_structural_issues LONG 50000 50000 [51000, 52000] = sl_high_msg \<and>
   (\<exists>r. calculate_trading_results ((example_inputs 60)\<lparr>stop_loss := 50000\<rparr>) = Inr r \<and>
        structural_issue r = sl_high_msg \<and> structural_issue r \<noteq> no_issue)"
proof -
  let ?i = "(example_inputs 60)\<lparr>stop_loss := 50000\<rparr>"
  have long: "direction ?i = LONG" and eq: "stop_loss ?i = entry_price ?i"
    by (simp_all add: example_inputs_def)
  note flagged = long_stop_at_entry_is_flagged [OF long eq]
  have walk: "long_walk (entry_price ?i) (entry_price ?i) 1 (take_profits ?i) = []"
    by (simp add: example_inputs_def)
  have "check_structural_issues (direction ?i) (entry_price ?i) (stop_loss ?i)
          (take_profits ?i) = sl_high_msg"
    using flagged walk by simp
  then have check: "check_structural_issues LONG 50000 50000 [51000, 52000] = sl_high_msg"
    by (simp add: example_inputs_def)
  have "entry_price ?i \<noteq> 0" "sizing_denominator ?i \<noteq> 0" "min_margin_of ?i \<noteq> 0"
    by (simp_all add: example_inputs_def sizing_denominator_def min_margin_of_def
          price_diff_def fee_per_unit_def TAKER_FEE_RATE_def)
  then obtain r where r: "calculate_trading_results ?i = Inr r"
    using calculate_trading_results_total by blast
  with flagged have "structural_issue r
      = join slash (sl_high_msg # long_walk (entry_price ?i) (entry_price ?i) 1
                                    (take_profits ?i))"
    and "structural_issue r \<noteq> no_issue"
    by blast+
  with walk have "structural_issue r = sl_high_msg" "structural_issue r \<noteq> no_issue"
    by simp_all
  with long eq check r show ?thesis by blast
qed

text \<open>
  C9. Two inputs that agree on direction, entry price, stop loss and take profits give the
  same \<open>structural_issue\<close>, whatever their total asset, risk ratio and margin usage
  ratio.
\<close>

theorem structural_issue_ignores_money:
  assumes "calculate_trading_results a = Inr ra" "calculate_trading_results b = Inr rb"
    and "direction a = direction b" "entry_price a = entry_price b"
    and "stop_loss a = stop_loss b" "take_profits a = take_profits b"
  shows "structural_issue ra = structural_issue rb"
proof -
  have "structural_issue ra = check_structural_issues (direction a) (entry_price a)
          (stop_loss a) (take_profits a)"
    using assms(1) by (rule calculate_trading_results_InrD)
  moreover have "structural_issue rb = check_structural_issues (direction b) (entry_price b)
          (stop_loss b) (take_profits b)"
    using assms(2) by (rule calculate_trading_results_InrD)
  ultimately show ?thesis
    using assms(3-6) by simp
qed

theorem structural_issue_ignores_money_witness:
  "\<exists>ra rb.
     calculate_trading_results (example_inputs 60) = Inr ra \<and>
     calculate_trading_results ((example_inputs 30)\<lparr>total_asset := 777, risk_ratio := 10\<rparr>)
       = Inr rb \<and>
     structural_issue ra = structural_issue rb"
proof -
  let ?b = "(example_inputs 30)\<lparr>total_asset := 777, risk_ratio := 10\<rparr>"
  obtain ra where ra: "calculate_trading_results (example_inputs 60) = Inr ra"
    using example_returns [of 60] by auto
  have "entry_price ?b \<noteq> 0" "sizing_denominator ?b \<noteq> 0" "min_margin_of ?b \<noteq> 0"
    by (simp_all add: example_inputs_def sizing_denominator_def min_margin_of_def
          price_diff_def fee_per_unit_def TAKER_FEE_RATE_def)
  then obtain rb where rb: "calculate_trading_results ?b = Inr rb"
    using calculate_trading_results_total by blast
  have "structural_issue ra = structural_issue rb"
    by (rule structural_issue_ignores_money [OF ra rb]) (simp_all add: example_inputs_def)
  with ra rb show ?thesis by blast
qed

text \<open>
  C10. For LONG and for SHORT alike, the \<open>stop_loss_price\<close> of the result is the
  \<open>stop_loss\<close> of the input, unchanged.
\<close>

theorem stop_loss_price_is_input:
  "calculate_trading_results inputs = Inr r \<Longrightarrow> stop_loss_price r = stop_loss inputs"
  by (erule calculate_trading_results_InrD)

theorem stop_loss_price_is_input_witness:
  "\<exists>r. calculate_trading_results (example_inputs 60) = Inr r \<and> stop_loss_price r = 49000"
proof -
  obtain r where r: "calculate_trading_results (example_inputs 60) = Inr r"
    using example_returns [of 60] by auto
  from stop_loss_price_is_input [OF r] r show ?thesis
    by (simp add: example_inputs_def)
qed

end
